theory Spec2Isabelle
  imports Complex_Main
begin

section \<open>The lane-following node\<close>

text \<open>
  A shallow embedding of \<^verbatim>\<open>packages/lane_following/src/lane_following_node.py\<close>.
  Python floats are read as reals and Python integers as \<open>int\<close>. Every method of
  \<^verbatim>\<open>LaneFollowNode\<close> takes the node's fields as a record and returns the updated
  record together with the list of externally visible events it produced, in program
  order: operations on \<^verbatim>\<open>self.lock\<close>, writes to the two lock-protected fields,
  calls into the dead-reckoning controller and the bot state (modules
  \<^verbatim>\<open>deadreckoning\<close> and \<^verbatim>\<open>state_machine\<close>, whose bodies are not part of the
  sources at hand, so a call is recorded and not interpreted, and is taken to return),
  and messages handed to \<^verbatim>\<open>vel_pub.publish\<close>. The branches under \<^verbatim>\<open>DEBUG\<close> are
  omitted: the constant is \<^verbatim>\<open>False\<close>; so is the \<^verbatim>\<open>print\<close> of \<^verbatim>\<open>drive\<close>.
\<close>

subsection \<open>Module constants\<close>

definition ENGLISH :: bool where
  "ENGLISH = False"

definition STOP_TIMER_RESET_TIME :: int where
  "STOP_TIMER_RESET_TIME = 60"

subsection \<open>Data\<close>

text \<open>\<^verbatim>\<open>Twist2DStamped\<close>, restricted to the two fields the node writes.\<close>

record twist2d =
  v :: real
  omega :: real

datatype error = ZeroDivisionError

datatype event =
    LockAcquire
  | LockRelease
  | WriteStopTimerReset int
  | WritePrepTurn bool
  | ControllerStop int
  | ControllerResetPosition
  | DecideTurnAtRedStopline
  | AdvanceState
  | SetTurnFlag bool
  | DriveForTime real real real
  | Publish twist2d
  | SignalShutdown

text \<open>
  The fields of \<^verbatim>\<open>LaneFollowNode\<close> that the methods below read or write.
  \<open>continue_run\<close> is \<open>None\<close> while the attribute does not exist: the constructor
  never assigns it.
\<close>

record node =
  proportional :: "int option"
  offset :: int
  velocity :: real
  speed :: real
  twist :: twist2d
  P :: real
  D :: real
  last_error :: int
  last_time :: real
  prep_turn :: bool
  stop_timer_reset :: int
  continue_run :: "bool option"

text \<open>\<^verbatim>\<open>__init__\<close>; the argument is the value of \<^verbatim>\<open>rospy.get_time()\<close> read there.\<close>

definition init :: "real \<Rightarrow> node" where
  "init now =
     \<lparr> proportional = None,
       offset = (if ENGLISH then - 220 else 220),
       velocity = 0.36,
       speed = 0.6,
       twist = \<lparr> v = 0.36, omega = 0 \<rparr>,
       P = 0.049,
       D = - 0.004,
       last_error = 0,
       last_time = now,
       prep_turn = False,
       stop_timer_reset = 0,
       continue_run = None \<rparr>"

subsection \<open>What a frame delivers\<close>

text \<open>
  The image operations (\<^verbatim>\<open>cv2.findContours\<close>, \<^verbatim>\<open>cv2.contourArea\<close>,
  \<^verbatim>\<open>cv2.moments\<close>, \<^verbatim>\<open>cv2.boundingRect\<close>) are external. A road-coloured contour is
  represented by what the callback asks of it: its area and its moments; a red
  contour by its area and its bounding rectangle.
\<close>

record contour =
  area :: real
  m00 :: real
  m10 :: real
  m01 :: real

record red_contour =
  red_area :: real
  xmin :: int
  ymin :: int
  width :: int
  height :: int

text \<open>
  One invocation of \<^verbatim>\<open>callback\<close> sees: the two answers of the bot state
  (\<^verbatim>\<open>get_lane_following_flag()\<close> and \<^verbatim>\<open>get_flags()['is_expecting_red_stopline']\<close>),
  the image width \<^verbatim>\<open>im.shape[1]\<close> (the crop keeps all columns, so it is also
  \<^verbatim>\<open>crop_width\<close>), the contours of the road mask and the contours of the dilated red
  mask.
\<close>

record frame =
  lane_following_flag :: bool
  is_expecting_red_stopline :: bool
  im_width :: int
  road_contours :: "contour list"
  red_contours :: "red_contour list"

subsection \<open>Python's \<^verbatim>\<open>int()\<close> on a float\<close>

definition py_int :: "real \<Rightarrow> int" where
  "py_int x = (if 0 \<le> x then \<lfloor>x\<rfloor> else \<lceil>x\<rceil>)"

subsection \<open>\<^verbatim>\<open>stopline_processing\<close>\<close>

text \<open>
  The loop over the red contours (lines 183 to 194); the arguments after the list are
  the loop index, \<^verbatim>\<open>largest_area\<close>, \<^verbatim>\<open>largest_idx\<close> and \<^verbatim>\<open>im.shape[1]\<close>.
\<close>

fun pick_largest :: "red_contour list \<Rightarrow> int \<Rightarrow> real \<Rightarrow> int \<Rightarrow> int \<Rightarrow> int" where
  "pick_largest [] i largest_area largest_idx w = largest_idx"
| "pick_largest (ctn # rest) i largest_area largest_idx w =
     (let xmax = xmin ctn + width ctn in
      if red_area ctn > largest_area \<and> red_area ctn > 3000
         \<and> real_of_int xmax > real_of_int w * 0.5
         \<and> real_of_int (xmin ctn) < real_of_int w * 0.5
      then pick_largest rest (i + 1) (red_area ctn) i w
      else pick_largest rest (i + 1) largest_area largest_idx w)"

definition contour_y :: "red_contour list \<Rightarrow> int \<Rightarrow> real" where
  "contour_y contours w =
     (let largest_idx = pick_largest contours 0 0 (- 1) w in
      if largest_idx \<noteq> - 1
      then (let largest_ctn = contours ! nat largest_idx in
            real_of_int (ymin largest_ctn) + real_of_int (height largest_ctn) * 0.5)
      else 0)"

definition stopline_processing :: "frame \<Rightarrow> node \<Rightarrow> node \<times> event list" where
  "stopline_processing im s =
     (if contour_y (red_contours im) (im_width im) > 390
      then (s\<lparr> stop_timer_reset := STOP_TIMER_RESET_TIME, prep_turn := True \<rparr>,
            [LockAcquire, WriteStopTimerReset STOP_TIMER_RESET_TIME, WritePrepTurn True,
             LockRelease])
      else (s, []))"

subsection \<open>\<^verbatim>\<open>callback\<close>\<close>

text \<open>
  The search for the lane in front (lines 106 to 112); the arguments after the list
  are the loop index, \<^verbatim>\<open>max_area\<close> and \<^verbatim>\<open>max_idx\<close>.
\<close>

fun search_lane :: "contour list \<Rightarrow> int \<Rightarrow> real \<Rightarrow> int \<Rightarrow> int" where
  "search_lane [] i max_area max_idx = max_idx"
| "search_lane (c # rest) i max_area max_idx =
     (if area c > max_area
      then search_lane rest (i + 1) (area c) i
      else search_lane rest (i + 1) max_area max_idx)"

text \<open>
  Lines 114 to 126. Inside the \<^verbatim>\<open>try\<close>, both divisions by \<^verbatim>\<open>M['m00']\<close> come before
  the assignment, and a float division by zero raises; the bare \<^verbatim>\<open>except\<close> then
  leaves \<^verbatim>\<open>self.proportional\<close> as it was.
\<close>

definition lane_error :: "frame \<Rightarrow> node \<Rightarrow> node" where
  "lane_error im s =
     (let max_idx = search_lane (road_contours im) 0 20 (- 1) in
      if max_idx \<noteq> - 1
      then (let M = road_contours im ! nat max_idx in
            if m00 M = 0 then s
            else (let cx = py_int (m10 M / m00 M);
                      cy = py_int (m01 M / m00 M)
                  in s\<lparr> proportional :=
                          Some (cx - py_int (real_of_int (im_width im) / 2) + offset s) \<rparr>))
      else s\<lparr> proportional := Some (- 100) \<rparr>)"

definition callback :: "frame \<Rightarrow> node \<Rightarrow> node \<times> event list" where
  "callback msg s =
     (let stop_timer_reset0 = stop_timer_reset s;
          n = max 0 (stop_timer_reset0 - 1);
          s1 = s\<lparr> stop_timer_reset := n \<rparr>;
          es1 = [LockAcquire, WriteStopTimerReset n, LockRelease]
      in if \<not> lane_following_flag msg
         then (s1\<lparr> proportional := None \<rparr>, es1)
         else (let (s2, es2) =
                     (if stop_timer_reset0 = 0 \<and> is_expecting_red_stopline msg
                      then stopline_processing msg s1
                      else (s1, []))
               in (lane_error msg s2, es1 @ es2)))"

subsection \<open>\<^verbatim>\<open>general_callback\<close>\<close>

definition general_callback :: "string \<Rightarrow> node \<Rightarrow> node \<times> event list" where
  "general_callback data s =
     (if data = ''shutdown'' then (s, [SignalShutdown])
      else if data = ''stop'' then (s\<lparr> continue_run := Some False \<rparr>, [])
      else (s, []))"

subsection \<open>\<^verbatim>\<open>drive\<close>\<close>

text \<open>
  What one call of \<^verbatim>\<open>drive\<close> obtains from outside the node: the turn index returned
  by \<^verbatim>\<open>bot_state.decide_turn_at_red_stopline()\<close> and the two readings of
  \<^verbatim>\<open>rospy.get_time()\<close> (line 162 and line 164).
\<close>

record drive_env =
  turn_idx :: int
  time1 :: real
  time2 :: real

definition is_turning :: "node \<Rightarrow> bool \<times> event list" where
  "is_turning s = (prep_turn s, [LockAcquire, LockRelease])"

text \<open>The branch taken when \<^verbatim>\<open>is_turning()\<close> holds (lines 134 to 153).\<close>

definition turn :: "drive_env \<Rightarrow> node \<Rightarrow> node \<times> event list" where
  "turn env s =
     (s\<lparr> prep_turn := False \<rparr>,
      [ControllerStop 20, ControllerResetPosition, DecideTurnAtRedStopline, AdvanceState,
       SetTurnFlag True, DriveForTime 0.6 0.6 6]
      @ (if turn_idx env = 0 then [DriveForTime (0.58 * speed s) (1.42 * speed s) 40]
         else if turn_idx env = 1 then [DriveForTime (0.9 * speed s) (1.1 * speed s) 75]
         else if turn_idx env = 2 then [DriveForTime (1.47 * speed s) (0.53 * speed s) 15]
         else [])
      @ [SetTurnFlag False, LockAcquire, WritePrepTurn False, LockRelease])"

text \<open>
  The PID branch (lines 155 to 172). The division of an \<^verbatim>\<open>int\<close> by a float that is
  zero raises, before any field is assigned and before the publish.
\<close>

definition pid :: "drive_env \<Rightarrow> node \<Rightarrow> error + node \<times> event list" where
  "pid env s =
     (case proportional s of
        None \<Rightarrow>
          (let tw = (twist s)\<lparr> omega := 0 \<rparr>
           in Inr (s\<lparr> twist := tw \<rparr>, [Publish tw]))
      | Some e \<Rightarrow>
          (let Pterm = - real_of_int e * P s;
               dt = time1 env - last_time s
           in if dt = 0 then Inl ZeroDivisionError
              else (let d_error = real_of_int (e - last_error s) / dt;
                        Dterm = d_error * D s;
                        tw = (twist s)\<lparr> v := velocity s, omega := Pterm + Dterm \<rparr>
                    in Inr (s\<lparr> last_error := e, last_time := time2 env, twist := tw \<rparr>,
                            [Publish tw]))))"

definition drive :: "drive_env \<Rightarrow> node \<Rightarrow> error + node \<times> event list" where
  "drive env s =
     (let (turning, es0) = is_turning s
      in if turning
         then (let (s', es) = turn env s in Inr (s', es0 @ es))
         else (case pid env s of
                 Inl err \<Rightarrow> Inl err
               | Inr (s', es) \<Rightarrow> Inr (s', es0 @ es)))"

subsection \<open>\<^verbatim>\<open>hook\<close>\<close>

text \<open>
  The class defines \<^verbatim>\<open>hook\<close> (lines 208 to 214), but the file neither calls it nor
  registers it: there is no \<^verbatim>\<open>rospy.on_shutdown\<close>, and line 208 is the only place
  where the name occurs.
\<close>

definition hook :: "node \<Rightarrow> node \<times> event list" where
  "hook s =
     (let tw = (twist s)\<lparr> v := 0, omega := 0 \<rparr>
      in (s\<lparr> twist := tw \<rparr>, Publish tw # replicate 8 (Publish tw)))"

subsection \<open>Sequences of invocations\<close>

text \<open>
  The node's methods are invoked from outside: \<^verbatim>\<open>callback\<close> and
  \<^verbatim>\<open>general_callback\<close> by the subscribers, \<^verbatim>\<open>drive\<close> by the main loop. A
  schedule lists the invocations in the order in which they take effect, each taken
  as one step. \<open>run\<close> threads the node through a schedule and collects the events.
  An exception that leaves \<^verbatim>\<open>drive\<close> ends the main loop: the run stops there, with
  the node and the events reached so far and the error. Shutdown is the message
  \<^verbatim>\<open>'shutdown'\<close>, on which \<^verbatim>\<open>general_callback\<close> calls \<^verbatim>\<open>rospy.signal_shutdown\<close>;
  the main loop then ends (lines 220 to 222), so a run of the program that shuts
  down is a schedule that ends with that message. A schedule may also hold \<open>Hook\<close>,
  so that the facts below cover the method; a schedule of the program as it is
  written holds none.
\<close>

datatype call =
    Callback frame
  | GeneralCallback string
  | Drive drive_env
  | Hook

fun step :: "call \<Rightarrow> node \<Rightarrow> error + node \<times> event list" where
  "step (Callback msg) s = Inr (callback msg s)"
| "step (GeneralCallback data) s = Inr (general_callback data s)"
| "step (Drive env) s = drive env s"
| "step Hook s = Inr (hook s)"

fun run :: "call list \<Rightarrow> node \<Rightarrow> node \<times> event list \<times> error option" where
  "run [] s = (s, [], None)"
| "run (c # cs) s =
     (case step c s of
        Inl err \<Rightarrow> (s, [], Some err)
      | Inr (s', es) \<Rightarrow>
          (case run cs s' of (s'', es', r) \<Rightarrow> (s'', es @ es', r)))"

definition state_after :: "call list \<Rightarrow> node \<Rightarrow> node" where
  "state_after cs s = fst (run cs s)"

definition trace :: "call list \<Rightarrow> node \<Rightarrow> event list" where
  "trace cs s = fst (snd (run cs s))"

fun is_callback :: "call \<Rightarrow> bool" where
  "is_callback (Callback msg) = True"
| "is_callback c = False"

subsection \<open>Reading a list of events\<close>

text \<open>The messages handed to \<^verbatim>\<open>vel_pub.publish\<close>, in order.\<close>

fun published :: "event list \<Rightarrow> twist2d list" where
  "published [] = []"
| "published (Publish tw # es) = tw # published es"
| "published (e # es) = published es"

text \<open>The arguments of the calls of \<^verbatim>\<open>controller.driveForTime\<close>, in order.\<close>

fun timed :: "event list \<Rightarrow> (real \<times> real \<times> real) list" where
  "timed [] = []"
| "timed (DriveForTime l r t # es) = (l, r, t) # timed es"
| "timed (e # es) = timed es"



text \<open>The values written to \<^verbatim>\<open>self.stop_timer_reset\<close>, in order.\<close>

fun timer_writes :: "event list \<Rightarrow> int list" where
  "timer_writes [] = []"
| "timer_writes (WriteStopTimerReset n # es) = n # timer_writes es"
| "timer_writes (e # es) = timer_writes es"

definition events_of :: "error + node \<times> event list \<Rightarrow> event list" where
  "events_of r = (case r of Inl err \<Rightarrow> [] | Inr (s, es) \<Rightarrow> es)"

text \<open>
  A frame on which \<^verbatim>\<open>callback\<close> reaches the stop-line test and the test succeeds,
  were the cooldown counter at zero.
\<close>

definition eligible :: "frame \<Rightarrow> bool" where
  "eligible msg \<longleftrightarrow>
     lane_following_flag msg \<and> is_expecting_red_stopline msg
     \<and> contour_y (red_contours msg) (im_width msg) > 390"

subsection \<open>The cruise state\<close>

text \<open>
  The stored twist carries the cruise velocity of the constructor, and so does
  \<^verbatim>\<open>self.velocity\<close>.
\<close>

definition cruise :: "node \<Rightarrow> bool" where
  "cruise s \<longleftrightarrow> v (twist s) = 0.36 \<and> velocity s = 0.36"

subsection \<open>Sample inputs\<close>

text \<open>Concrete frames and a concrete tick, used where a statement is instantiated.\<close>

definition stop_frame :: frame where
  "stop_frame =
     \<lparr> lane_following_flag = True, is_expecting_red_stopline = True, im_width = 640,
       road_contours = [\<lparr> area = 500, m00 = 500, m10 = 150000, m01 = 20000 \<rparr>],
       red_contours = [\<lparr> red_area = 4000, xmin = 100, ymin = 400, width = 400, height = 40 \<rparr>] \<rparr>"

definition lane_frame :: frame where
  "lane_frame =
     \<lparr> lane_following_flag = True, is_expecting_red_stopline = False, im_width = 640,
       road_contours = [\<lparr> area = 500, m00 = 500, m10 = 150000, m01 = 20000 \<rparr>],
       red_contours = [] \<rparr>"

definition faint_frame :: frame where
  "faint_frame =
     \<lparr> lane_following_flag = True, is_expecting_red_stopline = False, im_width = 640,
       road_contours = [\<lparr> area = 20, m00 = 20, m10 = 6000, m01 = 800 \<rparr>],
       red_contours = [] \<rparr>"

definition disabled_frame :: frame where
  "disabled_frame =
     \<lparr> lane_following_flag = False, is_expecting_red_stopline = False, im_width = 640,
       road_contours = [], red_contours = [] \<rparr>"

definition tick :: drive_env where
  "tick = \<lparr> turn_idx = 0, time1 = 1, time2 = 1 \<rparr>"

definition late_tick :: drive_env where
  "late_tick = \<lparr> turn_idx = 0, time1 = 9, time2 = 9 \<rparr>"

definition same_time_tick :: drive_env where
  "same_time_tick = \<lparr> turn_idx = 0, time1 = 10, time2 = 10 \<rparr>"

section \<open>Facts about the methods\<close>

subsection \<open>Event lists\<close>

lemma published_append: "published (xs @ ys) = published xs @ published ys"
  by (induction xs rule: published.induct) simp_all

lemma timed_append: "timed (xs @ ys) = timed xs @ timed ys"
  by (induction xs rule: timed.induct) simp_all

lemma timer_writes_append: "timer_writes (xs @ ys) = timer_writes xs @ timer_writes ys"
  by (induction xs rule: timer_writes.induct) simp_all

subsection \<open>The branches of \<^verbatim>\<open>drive\<close>\<close>

lemma drive_no_error:
  "\<not> prep_turn s \<Longrightarrow> proportional s = None \<Longrightarrow>
   drive env s = Inr (s\<lparr> twist := (twist s)\<lparr> omega := 0 \<rparr> \<rparr>,
                      [LockAcquire, LockRelease, Publish ((twist s)\<lparr> omega := 0 \<rparr>)])"
  by (simp add: drive_def is_turning_def pid_def Let_def)

lemma drive_error:
  "\<not> prep_turn s \<Longrightarrow> proportional s = Some e \<Longrightarrow> time1 env \<noteq> last_time s \<Longrightarrow>
   drive env s =
     Inr (s\<lparr> last_error := e, last_time := time2 env,
             twist := (twist s)\<lparr> v := velocity s,
                        omega := - real_of_int e * P s
                                 + real_of_int (e - last_error s) / (time1 env - last_time s) * D s \<rparr> \<rparr>,
          [LockAcquire, LockRelease,
           Publish ((twist s)\<lparr> v := velocity s,
                        omega := - real_of_int e * P s
                                 + real_of_int (e - last_error s) / (time1 env - last_time s) * D s \<rparr>)])"
  by (simp add: drive_def is_turning_def pid_def Let_def)

lemma drive_zero_elapsed:
  "\<not> prep_turn s \<Longrightarrow> proportional s = Some e \<Longrightarrow> time1 env = last_time s \<Longrightarrow>
   drive env s = Inl ZeroDivisionError"
  by (simp add: drive_def is_turning_def pid_def Let_def)

lemma drive_turning:
  "prep_turn s \<Longrightarrow> drive env s = Inr (s\<lparr> prep_turn := False \<rparr>, [LockAcquire, LockRelease] @ snd (turn env s))"
  by (simp add: drive_def is_turning_def turn_def Let_def)

lemma drive_cases:
  assumes "drive env s = Inr (s', es)"
  obtains
    (turning) "prep_turn s" "s' = s\<lparr> prep_turn := False \<rparr>"
      "es = [LockAcquire, LockRelease] @ snd (turn env s)"
  | (no_error) "\<not> prep_turn s" "proportional s = None"
      "s' = s\<lparr> twist := (twist s)\<lparr> omega := 0 \<rparr> \<rparr>"
      "es = [LockAcquire, LockRelease, Publish ((twist s)\<lparr> omega := 0 \<rparr>)]"
  | (pid) e where "\<not> prep_turn s" "proportional s = Some e" "time1 env \<noteq> last_time s"
      "s' = s\<lparr> last_error := e, last_time := time2 env,
               twist := (twist s)\<lparr> v := velocity s,
                          omega := - real_of_int e * P s
                                   + real_of_int (e - last_error s) / (time1 env - last_time s) * D s \<rparr> \<rparr>"
      "es = [LockAcquire, LockRelease,
             Publish ((twist s)\<lparr> v := velocity s,
                          omega := - real_of_int e * P s
                                   + real_of_int (e - last_error s) / (time1 env - last_time s) * D s \<rparr>)]"
proof (cases "prep_turn s")
  case True
  with assms drive_turning [OF True, of env] show ?thesis
    by (intro turning) simp_all
next
  case False
  show ?thesis
  proof (cases "proportional s")
    case None
    with assms drive_no_error [OF False None, of env] show ?thesis
      by (intro no_error False) simp_all
  next
    case (Some e)
    show ?thesis
    proof (cases "time1 env = last_time s")
      case True
      with assms drive_zero_elapsed [OF False Some True] show ?thesis by simp
    next
      case neq: False
      with assms drive_error [OF False Some neq] show ?thesis
        by (intro pid [of e] False Some) simp_all
    qed
  qed
qed

lemma snd_turn_no_writes:
  "timer_writes (snd (turn env s)) = []"
  "count_list (snd (turn env s)) (WritePrepTurn True) = 0"
  by (simp_all add: turn_def)

lemma drive_frame:
  assumes "drive env s = Inr (s', es)"
  shows "stop_timer_reset s' = stop_timer_reset s"
    and "velocity s' = velocity s"
    and "speed s' = speed s"
    and "timer_writes es = []"
    and "count_list es (WritePrepTurn True) = 0"
  using assms by (cases rule: drive_cases; simp add: snd_turn_no_writes)+

lemma drive_cruise:
  assumes "drive env s = Inr (s', es)" and "v (twist s) = velocity s"
  shows "v (twist s') = velocity s'"
  using assms by (cases rule: drive_cases) simp_all

subsection \<open>What \<^verbatim>\<open>callback\<close> writes\<close>

lemma lane_error_frame:
  "stop_timer_reset (lane_error im s) = stop_timer_reset s"
  "prep_turn (lane_error im s) = prep_turn s"
  "twist (lane_error im s) = twist s"
  "velocity (lane_error im s) = velocity s"
  "speed (lane_error im s) = speed s"
  "offset (lane_error im s) = offset s"
  by (simp_all add: lane_error_def Let_def)

lemma callback_events:
  "snd (callback msg s) =
     [LockAcquire, WriteStopTimerReset (max 0 (stop_timer_reset s - 1)), LockRelease]
     @ (if stop_timer_reset s = 0 \<and> eligible msg
        then [LockAcquire, WriteStopTimerReset STOP_TIMER_RESET_TIME, WritePrepTurn True, LockRelease]
        else [])"
  by (simp add: callback_def stopline_processing_def eligible_def Let_def split: prod.splits)

lemma callback_timer:
  "stop_timer_reset (fst (callback msg s)) =
     (if stop_timer_reset s = 0 \<and> eligible msg then STOP_TIMER_RESET_TIME
      else max 0 (stop_timer_reset s - 1))"
  by (simp add: callback_def stopline_processing_def eligible_def Let_def lane_error_frame split: prod.splits)

lemma callback_prep_turn:
  "prep_turn (fst (callback msg s)) =
     (if stop_timer_reset s = 0 \<and> eligible msg then True else prep_turn s)"
  by (simp add: callback_def stopline_processing_def eligible_def Let_def lane_error_frame split: prod.splits)

lemma callback_consts:
  "twist (fst (callback msg s)) = twist s"
  "velocity (fst (callback msg s)) = velocity s"
  "speed (fst (callback msg s)) = speed s"
  "offset (fst (callback msg s)) = offset s"
  by (simp_all add: callback_def stopline_processing_def Let_def lane_error_frame split: prod.splits)

lemma callback_flag_disabled:
  "\<not> lane_following_flag msg \<Longrightarrow> proportional (fst (callback msg s)) = None"
  by (simp add: callback_def Let_def)

lemma callback_proportional:
  "lane_following_flag msg \<Longrightarrow>
   proportional (fst (callback msg s)) = proportional (lane_error msg (s\<lparr> prep_turn := b \<rparr>))"
  by (simp add: callback_def stopline_processing_def Let_def lane_error_def split: prod.splits)

subsection \<open>The other methods\<close>

lemma general_callback_frame:
  "stop_timer_reset (fst (general_callback data s)) = stop_timer_reset s"
  "prep_turn (fst (general_callback data s)) = prep_turn s"
  "twist (fst (general_callback data s)) = twist s"
  "velocity (fst (general_callback data s)) = velocity s"
  "speed (fst (general_callback data s)) = speed s"
  "timer_writes (snd (general_callback data s)) = []"
  "count_list (snd (general_callback data s)) (WritePrepTurn True) = 0"
  by (simp_all add: general_callback_def)

lemma hook_frame:
  "stop_timer_reset (fst (hook s)) = stop_timer_reset s"
  "prep_turn (fst (hook s)) = prep_turn s"
  "velocity (fst (hook s)) = velocity s"
  "speed (fst (hook s)) = speed s"
  "timer_writes (snd (hook s)) = []"
  "count_list (snd (hook s)) (WritePrepTurn True) = 0"
  by (simp_all add: hook_def Let_def numeral_eq_Suc)

lemma general_callback_pair:
  assumes "general_callback data s = (s', es)"
  shows "stop_timer_reset s' = stop_timer_reset s"
    and "timer_writes es = []"
    and "count_list es (WritePrepTurn True) = 0"
  using general_callback_frame [of data s] by (simp_all add: assms)

lemma hook_pair:
  assumes "hook s = (s', es)"
  shows "stop_timer_reset s' = stop_timer_reset s"
    and "timer_writes es = []"
    and "count_list es (WritePrepTurn True) = 0"
  using hook_frame [of s] by (simp_all add: assms)

lemma step_not_callback:
  assumes "\<not> is_callback c" and "step c s = Inr (s', es)"
  shows "stop_timer_reset s' = stop_timer_reset s"
    and "timer_writes es = []"
    and "count_list es (WritePrepTurn True) = 0"
proof -
  show "stop_timer_reset s' = stop_timer_reset s"
    using assms by (cases c) (auto simp: general_callback_pair hook_pair drive_frame)
  show "timer_writes es = []"
    using assms by (cases c) (auto simp: general_callback_pair hook_pair drive_frame)
  show "count_list es (WritePrepTurn True) = 0"
    using assms by (cases c) (auto simp: general_callback_pair hook_pair drive_frame)
qed

subsection \<open>Schedules\<close>

lemma trace_Nil: "trace [] s = []"
  by (simp add: trace_def)

lemma trace_Cons:
  "trace (c # cs) s =
     (case step c s of Inl err \<Rightarrow> [] | Inr (s', es) \<Rightarrow> es @ trace cs s')"
  by (simp add: trace_def split: sum.splits prod.splits)

lemma state_after_Nil: "state_after [] s = s"
  by (simp add: state_after_def)

lemma state_after_Cons:
  "state_after (c # cs) s =
     (case step c s of Inl err \<Rightarrow> s | Inr (s', es) \<Rightarrow> state_after cs s')"
  by (simp add: state_after_def split: sum.splits prod.splits)

lemma trace_Callback:
  "trace (Callback msg # cs) s = snd (callback msg s) @ trace cs (fst (callback msg s))"
  by (simp add: trace_Cons split: prod.splits)

lemma state_after_Callback:
  "state_after (Callback msg # cs) s = state_after cs (fst (callback msg s))"
  by (simp add: state_after_Cons split: prod.splits)

lemma cooldown_no_trigger:
  "int (length (filter is_callback cs)) \<le> stop_timer_reset s \<Longrightarrow>
   count_list (trace cs s) (WritePrepTurn True) = 0"
proof (induction cs arbitrary: s)
  case Nil
  show ?case by (simp add: trace_Nil)
next
  case (Cons c cs)
  show ?case
  proof (cases "is_callback c")
    case True
    then obtain msg where c: "c = Callback msg" by (cases c) simp_all
    from Cons.prems c have pos: "1 \<le> stop_timer_reset s" by simp
    then have t: "stop_timer_reset (fst (callback msg s)) = stop_timer_reset s - 1"
      by (simp add: callback_timer)
    from pos have es: "snd (callback msg s) =
        [LockAcquire, WriteStopTimerReset (stop_timer_reset s - 1), LockRelease]"
      by (simp add: callback_events)
    from Cons.prems c t
    have "int (length (filter is_callback cs)) \<le> stop_timer_reset (fst (callback msg s))"
      by simp
    from Cons.IH [OF this] c es show ?thesis
      by (simp add: trace_Callback)
  next
    case False
    show ?thesis
    proof (cases "step c s")
      case (Inl err)
      then show ?thesis by (simp add: trace_Cons)
    next
      case (Inr p)
      then obtain s' es where st: "step c s = Inr (s', es)" by (cases p) simp
      from Cons.prems False step_not_callback(1) [OF False st]
      have "int (length (filter is_callback cs)) \<le> stop_timer_reset s'" by simp
      from Cons.IH [OF this] step_not_callback(3) [OF False st] st show ?thesis
        by (simp add: trace_Cons)
    qed
  qed
qed

lemma step_timer_range:
  assumes "0 \<le> stop_timer_reset s" and "step c s = Inr (s', es)"
  shows "0 \<le> stop_timer_reset s'"
proof (cases "is_callback c")
  case True
  then obtain msg where "c = Callback msg" by (cases c) simp_all
  with assms callback_timer [of msg s] show ?thesis
    by (auto simp: STOP_TIMER_RESET_TIME_def split: if_splits)
next
  case False
  from step_not_callback(1) [OF False assms(2)] assms(1) show ?thesis by simp
qed

lemma state_after_timer_range:
  "0 \<le> stop_timer_reset s \<Longrightarrow> 0 \<le> stop_timer_reset (state_after cs s)"
proof (induction cs arbitrary: s)
  case Nil
  then show ?case by (simp add: state_after_Nil)
next
  case (Cons c cs)
  show ?case
  proof (cases "step c s")
    case (Inl err)
    with Cons.prems show ?thesis by (simp add: state_after_Cons)
  next
    case (Inr p)
    then obtain s' es where st: "step c s = Inr (s', es)" by (cases p) simp
    from Cons.IH [OF step_timer_range [OF Cons.prems st]] st show ?thesis
      by (simp add: state_after_Cons)
  qed
qed

lemma step_cruise:
  assumes "cruise s" and "c \<noteq> Hook" and "step c s = Inr (s', es)"
  shows "cruise s'"
proof (cases c)
  case (Callback msg)
  with assms callback_consts(1,2) [of msg s] show ?thesis
    by (auto simp: cruise_def)
next
  case (GeneralCallback data)
  with assms general_callback_frame(3,4) [of data s] show ?thesis
    by (auto simp: cruise_def)
next
  case (Drive env)
  with assms have d: "drive env s = Inr (s', es)" by simp
  from assms(1) have "v (twist s) = velocity s" by (simp add: cruise_def)
  from drive_cruise [OF d this] drive_frame(2) [OF d] assms(1) show ?thesis
    by (simp add: cruise_def)
next
  case Hook
  with assms show ?thesis by simp
qed

lemma state_after_cruise:
  "cruise s \<Longrightarrow> Hook \<notin> set cs \<Longrightarrow> cruise (state_after cs s)"
proof (induction cs arbitrary: s)
  case Nil
  then show ?case by (simp add: state_after_Nil)
next
  case (Cons c cs)
  show ?case
  proof (cases "step c s")
    case (Inl err)
    with Cons.prems show ?thesis by (simp add: state_after_Cons)
  next
    case (Inr p)
    then obtain s' es where st: "step c s = Inr (s', es)" by (cases p) simp
    from Cons.prems have "c \<noteq> Hook" and rest: "Hook \<notin> set cs" by auto
    from Cons.IH [OF step_cruise [OF Cons.prems(1) \<open>c \<noteq> Hook\<close> st] rest] st show ?thesis
      by (simp add: state_after_Cons)
  qed
qed

lemma step_speed:
  assumes "step c s = Inr (s', es)"
  shows "speed s' = speed s"
proof (cases c)
  case (Callback msg)
  with assms callback_consts(3) [of msg s] show ?thesis by auto
next
  case (GeneralCallback data)
  with assms general_callback_frame(5) [of data s] show ?thesis by auto
next
  case (Drive env)
  with assms drive_frame(3) [of env s s' es] show ?thesis by simp
next
  case Hook
  with assms hook_frame(4) [of s] show ?thesis by auto
qed

lemma state_after_speed: "speed (state_after cs s) = speed s"
proof (induction cs arbitrary: s)
  case Nil
  show ?case by (simp add: state_after_Nil)
next
  case (Cons c cs)
  show ?case
  proof (cases "step c s")
    case (Inl err)
    then show ?thesis by (simp add: state_after_Cons)
  next
    case (Inr p)
    then obtain s' es where st: "step c s = Inr (s', es)" by (cases p) simp
    from Cons.IH [of s'] step_speed [OF st] st show ?thesis
      by (simp add: state_after_Cons)
  qed
qed

text \<open>The window of 60 callbacks is exact: the 61st callback after a trigger can trigger again.\<close>

lemma countdown:
  "stop_timer_reset s = int n \<Longrightarrow>
   stop_timer_reset (state_after (replicate n (Callback msg)) s) = 0
   \<and> count_list (trace (replicate n (Callback msg)) s) (WritePrepTurn True) = 0"
proof (induction n arbitrary: s)
  case 0
  then show ?case by (simp add: state_after_Nil trace_Nil)
next
  case (Suc n)
  then have "stop_timer_reset (fst (callback msg s)) = int n"
    by (simp add: callback_timer)
  from Suc.IH [OF this] Suc.prems show ?case
    by (simp add: state_after_Callback trace_Callback callback_events)
qed

lemma trace_callbacks_append:
  "trace (replicate n (Callback msg) @ cs) s =
     trace (replicate n (Callback msg)) s @ trace cs (state_after (replicate n (Callback msg)) s)"
  by (induction n arbitrary: s) (simp_all add: trace_Nil state_after_Nil trace_Callback state_after_Callback)

lemma cooldown_window_sharp:
  assumes "stop_timer_reset s = 0" and "eligible msg"
  shows "count_list (trace (Callback msg # replicate 60 (Callback msg) @ [Callback msg]) s)
           (WritePrepTurn True) = 2"
proof -
  let ?s1 = "fst (callback msg s)"
  from assms have "stop_timer_reset ?s1 = int 60"
    by (simp add: callback_timer STOP_TIMER_RESET_TIME_def)
  from countdown [OF this, of msg]
  have z: "stop_timer_reset (state_after (replicate 60 (Callback msg)) ?s1) = 0"
    and n: "count_list (trace (replicate 60 (Callback msg)) ?s1) (WritePrepTurn True) = 0"
    by simp_all
  from z assms(2)
  have "count_list (trace [Callback msg] (state_after (replicate 60 (Callback msg)) ?s1))
          (WritePrepTurn True) = 1"
    by (simp add: trace_Callback trace_Nil callback_events)
  with n assms show ?thesis
    by (simp add: trace_Callback [of msg "replicate 60 (Callback msg) @ [Callback msg]"]
        trace_callbacks_append callback_events)
qed

subsection \<open>The lane in front\<close>

lemma search_lane_below:
  "\<forall>c \<in> set cs. area c \<le> a \<Longrightarrow> search_lane cs i a idx = idx"
  by (induction cs arbitrary: i) auto

lemma lane_error_below:
  assumes "\<forall>c \<in> set (road_contours msg). area c \<le> 20"
  shows "proportional (lane_error msg s) = Some (- 100)"
  using search_lane_below [OF assms, of 0 "- 1"] by (simp add: lane_error_def)

lemma lane_error_single:
  assumes "road_contours msg = [c]" and "area c > 20" and "m00 c \<noteq> 0"
  shows "proportional (lane_error msg s) =
           Some (py_int (m10 c / m00 c) - py_int (real_of_int (im_width msg) / 2) + offset s)"
  using assms by (simp add: lane_error_def Let_def)

subsection \<open>The sample inputs\<close>

lemma eligible_stop_frame: "eligible stop_frame"
  by (simp add: eligible_def stop_frame_def contour_y_def Let_def)

lemma callback_stop_frame_init:
  "fst (callback stop_frame (init 0)) = (init 0)\<lparr> proportional := Some 200, stop_timer_reset := 60, prep_turn := True \<rparr>"
  by (simp add: callback_def stopline_processing_def lane_error_def stop_frame_def contour_y_def
      Let_def init_def ENGLISH_def STOP_TIMER_RESET_TIME_def py_int_def)

lemma callback_disabled_frame_init:
  "fst (callback disabled_frame (init 0)) = init 0"
  by (simp add: callback_def disabled_frame_def Let_def init_def)


lemma callback_lane_frame_init:
  "fst (callback lane_frame (init now)) = (init now)\<lparr> proportional := Some 200 \<rparr>"
  by (simp add: callback_def lane_error_def lane_frame_def Let_def init_def ENGLISH_def py_int_def)

lemma after_lane_frame:
  "state_after [Callback lane_frame] (init now) = (init now)\<lparr> proportional := Some 200 \<rparr>"
  by (simp add: state_after_Callback state_after_Nil callback_lane_frame_init)

subsection \<open>What is published\<close>

lemma callback_publishes_nothing: "published (snd (callback msg s)) = []"
  by (simp add: callback_events)

lemma general_callback_publishes_nothing: "published (snd (general_callback data s)) = []"
  by (simp add: general_callback_def)

lemma turn_publishes_nothing: "published (snd (turn env s)) = []"
  by (simp add: turn_def)

lemma drive_published_cruise:
  assumes "drive env s = Inr (s', es)" and "cruise s"
  shows "list_all (\<lambda>tw. v tw = 0.36) (published es)"
  using assms by (cases rule: drive_cases) (simp_all add: turn_publishes_nothing cruise_def)

lemma step_published_cruise:
  assumes "cruise s" and "c \<noteq> Hook" and "step c s = Inr (s', es)"
  shows "list_all (\<lambda>tw. v tw = 0.36) (published es)"
proof (cases c)
  case (Callback msg)
  with assms callback_publishes_nothing [of msg s] show ?thesis by auto
next
  case (GeneralCallback data)
  with assms general_callback_publishes_nothing [of data s] show ?thesis by auto
next
  case (Drive env)
  with assms drive_published_cruise [of env s s' es] show ?thesis by simp
next
  case Hook
  with assms show ?thesis by simp
qed

text \<open>
  As long as \<^verbatim>\<open>hook\<close> is not invoked, every command the node publishes has linear
  velocity 0.36: none is the zero command.
\<close>

lemma published_cruise:
  "cruise s \<Longrightarrow> Hook \<notin> set cs \<Longrightarrow>
   list_all (\<lambda>tw. v tw = 0.36) (published (trace cs s))"
proof (induction cs arbitrary: s)
  case Nil
  show ?case by (simp add: trace_Nil)
next
  case (Cons c cs)
  show ?case
  proof (cases "step c s")
    case (Inl err)
    then show ?thesis by (simp add: trace_Cons)
  next
    case (Inr p)
    then obtain s' es where st: "step c s = Inr (s', es)" by (cases p) simp
    from Cons.prems have ne: "c \<noteq> Hook" and rest: "Hook \<notin> set cs" by auto
    from Cons.IH [OF step_cruise [OF Cons.prems(1) ne st] rest]
      step_published_cruise [OF Cons.prems(1) ne st] st
    show ?thesis by (simp add: trace_Cons published_append)
  qed
qed

text \<open>What \<^verbatim>\<open>hook\<close> would publish, were it invoked: nine zero commands.\<close>

lemma hook_zero_burst:
  "snd (hook s) = replicate 9 (Publish \<lparr> v = 0, omega = 0 \<rparr>)
   \<and> last (published (es @ snd (hook s))) = \<lparr> v = 0, omega = 0 \<rparr>
   \<and> twist (fst (hook s)) = \<lparr> v = 0, omega = 0 \<rparr>"
  by (simp add: hook_def Let_def published_append numeral_eq_Suc)

section \<open>The claims\<close>

subsection \<open>The PID branch without a lateral error\<close>

text \<open>
  C1. On a tick outside a turn (\<^verbatim>\<open>is_turning()\<close> is false) whose lateral error
  \<^verbatim>\<open>self.proportional\<close> is \<^verbatim>\<open>None\<close>, \<^verbatim>\<open>drive\<close> returns, publishes exactly one
  command, and the angular velocity of that command and of the stored twist is 0,
  whatever the gains \<^verbatim>\<open>P\<close> and \<^verbatim>\<open>D\<close> are.
\<close>

theorem pid_no_error_zero_angular:
  assumes "\<not> prep_turn s" and "proportional s = None"
  shows "\<exists>s' es. drive env (s\<lparr> P := p, D := d \<rparr>) = Inr (s', es)
           \<and> map omega (published es) = [0] \<and> omega (twist s') = 0"
  using assms by (simp add: drive_no_error)

theorem pid_no_error_zero_angular_witness:
  "\<not> prep_turn (init 0) \<and> proportional (init 0) = None \<and>
   (\<exists>s' es. drive tick ((init 0)\<lparr> P := 5, D := 7 \<rparr>) = Inr (s', es)
           \<and> map omega (published es) = [0] \<and> omega (twist s') = 0)"
  using pid_no_error_zero_angular [where s = "init 0" and env = tick and p = 5 and d = 7]
  by (simp add: init_def ENGLISH_def)

subsection \<open>The stop-line cooldown\<close>

text \<open>
  C3. The stop-line trigger is debounced. Take a callback on a trigger-eligible frame
  at a moment when the cooldown counter is 0: it writes \<^verbatim>\<open>prep_turn = True\<close> and sets
  the counter to 60. Whatever follows it, as long as it holds at most 60 further
  callbacks (on any frames, eligible ones included, interleaved at will with ticks of
  the control loop, which may clear the flag), \<^verbatim>\<open>prep_turn = True\<close> is written exactly
  once in the whole sequence.
\<close>

theorem stopline_trigger_debounced:
  assumes "stop_timer_reset s = 0" and "eligible msg"
    and "length (filter is_callback cs) \<le> 60"
  shows "count_list (trace (Callback msg # cs) s) (WritePrepTurn True) = 1"
proof -
  from assms have "stop_timer_reset (fst (callback msg s)) = 60"
    by (simp add: callback_timer STOP_TIMER_RESET_TIME_def)
  with assms(3)
  have "int (length (filter is_callback cs)) \<le> stop_timer_reset (fst (callback msg s))"
    by simp
  from cooldown_no_trigger [OF this] assms(1,2) show ?thesis
    by (simp add: trace_Callback callback_events)
qed

theorem stopline_trigger_debounced_witness:
  "stop_timer_reset (init 0) = 0 \<and> eligible stop_frame
   \<and> length (filter is_callback
         [Drive tick, Callback stop_frame, Drive tick, Callback stop_frame]) \<le> 60
   \<and> count_list
        (trace (Callback stop_frame
                # [Drive tick, Callback stop_frame, Drive tick, Callback stop_frame]) (init 0))
        (WritePrepTurn True) = 1"
  using stopline_trigger_debounced [where s = "init 0" and msg = stop_frame
      and cs = "[Drive tick, Callback stop_frame, Drive tick, Callback stop_frame]"]
  by (simp add: eligible_stop_frame) (simp add: init_def)

subsection \<open>Writes to the cooldown counter\<close>

text \<open>
  C8. In every state the node can reach from its constructor, a callback first
  writes \<open>max 0 (t - 1)\<close> to \<^verbatim>\<open>stop_timer_reset\<close>, where \<open>t\<close> is the value it read: a
  value between 0 and \<open>t\<close>. It writes a second time only when the stop-line trigger
  fires (the counter was 0 and the frame is eligible, and \<^verbatim>\<open>prep_turn = True\<close> is
  written with it), and that write is the constant \<^verbatim>\<open>STOP_TIMER_RESET_TIME\<close>. The
  control loop never writes the counter.
\<close>

theorem stop_timer_reset_monotone:
  assumes "s = state_after cs (init now)"
  shows "timer_writes (snd (callback msg s)) =
           (if stop_timer_reset s = 0 \<and> eligible msg then [0, STOP_TIMER_RESET_TIME]
            else [max 0 (stop_timer_reset s - 1)])
         \<and> 0 \<le> max 0 (stop_timer_reset s - 1)
         \<and> max 0 (stop_timer_reset s - 1) \<le> stop_timer_reset s
         \<and> (WritePrepTurn True \<in> set (snd (callback msg s))
              \<longleftrightarrow> stop_timer_reset s = 0 \<and> eligible msg)
         \<and> timer_writes (events_of (drive env s)) = []"
proof -
  have "0 \<le> stop_timer_reset (init now)" by (simp add: init_def)
  from state_after_timer_range [OF this, of cs] assms have nonneg: "0 \<le> stop_timer_reset s"
    by simp
  have "timer_writes (events_of (drive env s)) = []"
    by (cases "drive env s") (auto simp: events_of_def drive_frame)
  with nonneg show ?thesis
    by (simp add: callback_events)
qed

theorem stop_timer_reset_monotone_witness:
  "stop_timer_reset (state_after [Callback stop_frame] (init 0)) = 60
   \<and> timer_writes (snd (callback stop_frame (state_after [Callback stop_frame] (init 0)))) = [59]
   \<and> WritePrepTurn True
        \<notin> set (snd (callback stop_frame (state_after [Callback stop_frame] (init 0))))
   \<and> timer_writes (events_of (drive tick (state_after [Callback stop_frame] (init 0)))) = []"
  using stop_timer_reset_monotone [OF refl, where cs = "[Callback stop_frame]" and now = 0
      and msg = stop_frame and env = tick]
  by (simp add: state_after_Callback state_after_Nil callback_stop_frame_init)

subsection \<open>Shutdown\<close>

text \<open>
  C9. The claim that the last command emitted on shutdown is a zero-velocity command
  does not hold of the program: \<^verbatim>\<open>hook\<close>, which would publish the zero burst, is
  never invoked. In the run made of a frame with a lane, a tick one second after start
  and the message \<^verbatim>\<open>'shutdown'\<close>, the message publishes nothing, and the last command
  published is the tick's, with linear velocity 0.36 and angular velocity \<open>- 10.6\<close>.
\<close>

theorem shutdown_last_command_not_zero:
  "trace [Callback lane_frame, Drive tick, GeneralCallback ''shutdown''] (init 0) =
     [LockAcquire, WriteStopTimerReset 0, LockRelease,
      LockAcquire, LockRelease, Publish \<lparr> v = 0.36, omega = - 10.6 \<rparr>,
      SignalShutdown]
   \<and> last (published (trace [Callback lane_frame, Drive tick, GeneralCallback ''shutdown'']
                         (init 0)))
       = \<lparr> v = 0.36, omega = - 10.6 \<rparr>"
  by (simp add: trace_def general_callback_def callback_def lane_error_def lane_frame_def
      drive_def is_turning_def pid_def Let_def init_def tick_def ENGLISH_def py_int_def)

subsection \<open>The linear velocity when there is no lateral error\<close>

text \<open>
  C10. In every state the node can reach from its constructor without the shutdown
  hook, the stored twist has linear velocity 0.36, the cruise velocity
  \<^verbatim>\<open>self.velocity\<close>. On a tick outside a turn whose lateral error is \<^verbatim>\<open>None\<close>,
  \<^verbatim>\<open>drive\<close> changes only the angular velocity of that twist, to 0, and publishes it:
  the published command has linear velocity 0.36, not 0.
\<close>

theorem no_error_keeps_linear_velocity:
  assumes "s = state_after cs (init now)" and "Hook \<notin> set cs"
    and "\<not> prep_turn s" and "proportional s = None"
  shows "drive env s =
           Inr (s\<lparr> twist := \<lparr> v = 0.36, omega = 0 \<rparr> \<rparr>,
                [LockAcquire, LockRelease, Publish \<lparr> v = 0.36, omega = 0 \<rparr>])
         \<and> v (twist s) = 0.36 \<and> velocity s = 0.36"
proof -
  have "cruise (init now)" by (simp add: cruise_def init_def)
  from state_after_cruise [OF this assms(2)] assms(1) have c: "cruise s" by simp
  then have "(twist s)\<lparr> omega := 0 \<rparr> = \<lparr> v = 0.36, omega = 0 \<rparr>"
    by (simp add: cruise_def)
  with drive_no_error [OF assms(3,4), of env] c show ?thesis
    by (simp add: cruise_def)
qed

theorem no_error_keeps_linear_velocity_witness:
  "Hook \<notin> set [Callback disabled_frame]
   \<and> \<not> prep_turn (state_after [Callback disabled_frame] (init 0))
   \<and> proportional (state_after [Callback disabled_frame] (init 0)) = None
   \<and> published (events_of (drive tick (state_after [Callback disabled_frame] (init 0))))
       = [\<lparr> v = 0.36, omega = 0 \<rparr>]"
  using no_error_keeps_linear_velocity [OF refl, where cs = "[Callback disabled_frame]" and now = 0 and env = tick]
  by (simp add: state_after_Callback state_after_Nil callback_disabled_frame_init events_of_def)
     (simp add: init_def)

subsection \<open>The left turn\<close>

text \<open>
  C7. In every state the node can reach from its constructor, a tick that finds
  \<^verbatim>\<open>prep_turn\<close> set and is given turn index 0 returns, and its events are: some events
  with no timed drive command among them, then \<^verbatim>\<open>driveForTime(.6, .6, 6)\<close>, directly
  followed by \<^verbatim>\<open>driveForTime(.58 * .6, 1.42 * .6, 40)\<close>, then events with no timed drive
  command among them; nothing is published during the tick. (What one call of
  \<^verbatim>\<open>driveForTime\<close> sends to the wheels is the controller's business and is not
  modelled.)
\<close>

theorem left_turn_profile_emitted:
  assumes "s = state_after cs (init now)" and "prep_turn s" and "turn_idx env = 0"
  shows "\<exists>s' pre post.
           drive env s =
             Inr (s', pre @ [DriveForTime 0.6 0.6 6, DriveForTime (0.58 * 0.6) (1.42 * 0.6) 40] @ post)
           \<and> timed pre = [] \<and> timed post = [] \<and> published (pre @ post) = []"
proof -
  from assms(1) have sp: "speed s = 0.6"
    by (simp add: state_after_speed init_def)
  let ?pre = "[LockAcquire, LockRelease, ControllerStop 20, ControllerResetPosition,
               DecideTurnAtRedStopline, AdvanceState, SetTurnFlag True]"
  let ?post = "[SetTurnFlag False, LockAcquire, WritePrepTurn False, LockRelease]"
  from drive_turning [OF assms(2), of env] assms(3) sp
  have "drive env s =
          Inr (s\<lparr> prep_turn := False \<rparr>,
               ?pre @ [DriveForTime 0.6 0.6 6, DriveForTime (0.58 * 0.6) (1.42 * 0.6) 40] @ ?post)"
    by (simp add: turn_def)
  moreover have "timed ?pre = []" "timed ?post = []" "published (?pre @ ?post) = []"
    by simp_all
  ultimately show ?thesis by blast
qed

theorem left_turn_profile_emitted_witness:
  "prep_turn (state_after [Callback stop_frame] (init 0)) \<and> turn_idx tick = 0
   \<and> timed (events_of (drive tick (state_after [Callback stop_frame] (init 0))))
       = [(0.6, 0.6, 6), (0.58 * 0.6, 1.42 * 0.6, 40)]
   \<and> published (events_of (drive tick (state_after [Callback stop_frame] (init 0)))) = []"
  using left_turn_profile_emitted [OF refl, where cs = "[Callback stop_frame]" and now = 0 and env = tick]
  by (auto simp: state_after_Callback state_after_Nil callback_stop_frame_init events_of_def
        tick_def timed_append published_append)

subsection \<open>The derivative term\<close>

text \<open>
  C2, as amended. The code has no guard on the elapsed time. On a tick outside a turn
  with lateral error \<open>e\<close>, whenever the first clock reading differs from
  \<^verbatim>\<open>last_time\<close> (the elapsed time may be negative), \<^verbatim>\<open>drive\<close> returns and
  publishes one command whose angular velocity is
  \<open>- e * P + (e - last_error) / elapsed * D\<close> and whose linear velocity is
  \<^verbatim>\<open>self.velocity\<close>; the derivative is computed, the previous angular velocity is not
  reused, and \<^verbatim>\<open>last_error\<close> and \<^verbatim>\<open>last_time\<close> are updated.
\<close>

theorem pid_derivative_unguarded:
  assumes "\<not> prep_turn s" and "proportional s = Some e" and "time1 env \<noteq> last_time s"
  shows "\<exists>s' es. drive env s = Inr (s', es)
           \<and> map omega (published es) =
               [- real_of_int e * P s
                + real_of_int (e - last_error s) / (time1 env - last_time s) * D s]
           \<and> map v (published es) = [velocity s]
           \<and> published es = [twist s']
           \<and> last_error s' = e \<and> last_time s' = time2 env"
  using drive_error [OF assms] by simp

theorem pid_derivative_unguarded_witness:
  "\<not> prep_turn (state_after [Callback lane_frame] (init 10))
   \<and> proportional (state_after [Callback lane_frame] (init 10)) = Some 200
   \<and> time1 late_tick - last_time (state_after [Callback lane_frame] (init 10)) = - 1
   \<and> map omega (published (events_of (drive late_tick (state_after [Callback lane_frame] (init 10)))))
       = [- 9]"
  using pid_derivative_unguarded [where s = "state_after [Callback lane_frame] (init 10)"
      and env = late_tick and e = 200]
  unfolding after_lane_frame
  by (auto simp: init_def late_tick_def events_of_def)

text \<open>
  The claim as stated fails. With the clock one second behind \<^verbatim>\<open>last_time\<close> the
  published angular velocity is \<open>- 9\<close>, not the previous 0; with the clock equal to
  \<^verbatim>\<open>last_time\<close> the division raises.
\<close>

theorem derivative_guard_counterexample:
  "omega (twist (state_after [Callback lane_frame] (init 10))) = 0
   \<and> time1 late_tick - last_time (state_after [Callback lane_frame] (init 10)) = - 1
   \<and> map omega (published (events_of (drive late_tick (state_after [Callback lane_frame] (init 10)))))
       = [- 9]
   \<and> time1 same_time_tick - last_time (state_after [Callback lane_frame] (init 10)) = 0
   \<and> drive same_time_tick (state_after [Callback lane_frame] (init 10)) = Inl ZeroDivisionError"
  unfolding after_lane_frame
  by (simp add: drive_def is_turning_def pid_def Let_def init_def late_tick_def
      same_time_tick_def events_of_def)

subsection \<open>Clearing \<^verbatim>\<open>prep_turn\<close>\<close>




subsection \<open>The lateral error of a frame\<close>

text \<open>
  C5, as amended. With lane following enabled: when no road-coloured contour has an
  area above 20, the callback sets the lateral error to \<open>- 100\<close> (the code's
  "assume off to the right"), not to \<^verbatim>\<open>None\<close>; when the only contour has area 500,
  a non-zero \<^verbatim>\<open>m00\<close> and centroid column 300, the width is 640 and the offset 220,
  the lateral error is \<open>300 - 320 + 220 = 200\<close>.
\<close>

theorem perception_scenario:
  assumes "lane_following_flag msg"
  shows "((\<forall>c \<in> set (road_contours msg). area c \<le> 20)
            \<longrightarrow> proportional (fst (callback msg s)) = Some (- 100))
         \<and> (road_contours msg = [c] \<and> area c = 500 \<and> m00 c \<noteq> 0
              \<and> py_int (m10 c / m00 c) = 300 \<and> im_width msg = 640 \<and> offset s = 220
            \<longrightarrow> proportional (fst (callback msg s)) = Some 200)"
proof (intro conjI impI)
  assume small: "\<forall>c \<in> set (road_contours msg). area c \<le> 20"
  from lane_error_below [OF small] callback_proportional [OF assms, of s "prep_turn s"]
  show "proportional (fst (callback msg s)) = Some (- 100)" by simp
next
  assume "road_contours msg = [c] \<and> area c = 500 \<and> m00 c \<noteq> 0
            \<and> py_int (m10 c / m00 c) = 300 \<and> im_width msg = 640 \<and> offset s = 220"
  then have "proportional (lane_error msg (s\<lparr> prep_turn := prep_turn s \<rparr>)) = Some 200"
    by (simp add: lane_error_single [where c = c] py_int_def)
  with callback_proportional [OF assms, of s "prep_turn s"]
  show "proportional (fst (callback msg s)) = Some 200" by simp
qed

theorem perception_scenario_witness:
  "lane_following_flag faint_frame
   \<and> map area (road_contours faint_frame) = [20]
   \<and> proportional (fst (callback faint_frame (init 0))) = Some (- 100)
   \<and> lane_following_flag lane_frame
   \<and> map area (road_contours lane_frame) = [500] \<and> im_width lane_frame = 640
   \<and> offset (init 0) = 220
   \<and> proportional (fst (callback lane_frame (init 0))) = Some 200"
  using perception_scenario [where msg = faint_frame and s = "init 0"]
    perception_scenario [where msg = lane_frame and s = "init 0"
        and c = "\<lparr> area = 500, m00 = 500, m10 = 150000, m01 = 20000 \<rparr>"]
  by (simp add: faint_frame_def lane_frame_def init_def ENGLISH_def py_int_def)

text \<open>
  The claim as stated fails on a frame whose only road-coloured contour has area 20.
\<close>

theorem lane_error_none_counterexample:
  "lane_following_flag faint_frame
   \<and> map area (road_contours faint_frame) = [20]
   \<and> proportional (fst (callback faint_frame (init 0))) = Some (- 100)
   \<and> proportional (fst (callback faint_frame (init 0))) \<noteq> None"
  by (simp add: faint_frame_def callback_def lane_error_def Let_def init_def)

subsection \<open>The stop notification\<close>

text \<open>
  C6. The message \<^verbatim>\<open>'stop'\<close> assigns \<^verbatim>\<open>self.continue_run = False\<close>, which nothing
  reads. After it, a frame with a lane and a tick publish the same command as without
  it: linear velocity 0.36 and the PID's angular velocity.
\<close>

theorem stop_notification_keeps_driving:
  "continue_run (state_after [GeneralCallback ''stop''] (init 0)) = Some False
   \<and> published (trace [GeneralCallback ''stop'', Callback lane_frame, Drive tick] (init 0))
       = [\<lparr> v = 0.36, omega = - 10.6 \<rparr>]
   \<and> published (trace [Callback lane_frame, Drive tick] (init 0))
       = [\<lparr> v = 0.36, omega = - 10.6 \<rparr>]"
  by (simp add: state_after_def trace_def general_callback_def callback_def lane_error_def lane_frame_def
      drive_def is_turning_def pid_def Let_def init_def tick_def ENGLISH_def py_int_def)

end
